theory Spec2Isabelle
  imports Complex_Main "HOL-Library.Sublist"
begin

section \<open>Python values and the operations the crawler applies to them\<close>

text \<open>
  The crawler (\<^verbatim>\<open>all_package_7.py\<close>, class \<^verbatim>\<open>PyPICrawler\<close>) works on whatever
  \<^verbatim>\<open>response.json()\<close> returns, so a metadata document is an arbitrary JSON value and
  every subscript, membership test and method call is the dynamically typed Python
  operation, which may raise. Each of these operations is a function into
  \<open>py_exn + 'a\<close>, with \<open>Inl\<close> the exception raised.

  A Python \<^verbatim>\<open>str\<close> is a \<open>string\<close> whose characters are the code points 0 to 255.
  A Python \<^verbatim>\<open>float\<close> is its exact rational value, an infinity or NaN; the two zeros
  are one value, which is how \<^verbatim>\<open>==\<close> and truth testing see them.
  \<^verbatim>\<open>None\<close> is \<open>JNull\<close>, both as JSON \<^verbatim>\<open>null\<close> and as the result of a function
  that returns \<^verbatim>\<open>None\<close>.
  A dictionary is an association list read with \<open>map_of\<close>: the first entry of a key is
  the dictionary's entry, later entries of the same key are not part of it.
  Logging is left out: it changes nothing the crawler computes.
\<close>

datatype pyfloat = Finite rat | PosInf | NegInf | NaN

datatype json =
    JNull
  | JBool bool
  | JInt int
  | JFloat pyfloat
  | JStr string
  | JArr "json list"
  | JObj "(string \<times> json) list"

datatype py_exn = KeyError | ValueError | IndexError | TypeError | AttributeError

definition exn_bind :: "'e + 'a \<Rightarrow> ('a \<Rightarrow> 'e + 'b) \<Rightarrow> 'e + 'b" where
  "exn_bind m f = (case m of Inl e \<Rightarrow> Inl e | Inr v \<Rightarrow> f v)"

text \<open>The keys of a dictionary in iteration order: each key once, at its first entry.\<close>

definition first_occurrences :: "'a list \<Rightarrow> 'a list" where
  "first_occurrences xs = rev (remdups (rev xs))"

text \<open>Truth value testing (\<^verbatim>\<open>if x:\<close>, \<^verbatim>\<open>not x\<close>).\<close>

fun py_truthy :: "json \<Rightarrow> bool" where
  "py_truthy JNull = False"
| "py_truthy (JBool b) = b"
| "py_truthy (JInt i) = (i \<noteq> 0)"
| "py_truthy (JFloat f) = (f \<noteq> Finite 0)"
| "py_truthy (JStr s) = (s \<noteq> [])"
| "py_truthy (JArr xs) = (xs \<noteq> [])"
| "py_truthy (JObj kvs) = (kvs \<noteq> [])"

text \<open>
  \<^verbatim>\<open>a == b\<close>: \<^verbatim>\<open>bool\<close>, \<^verbatim>\<open>int\<close> and \<^verbatim>\<open>float\<close> compare by numeric value
  (\<^verbatim>\<open>True == 1 == 1.0\<close>), lists element by element, dictionaries by their entries
  whatever the order. Inside containers and membership tests Python compares by identity
  first, and the JSON decoder returns one NaN object, so NaN equals itself here.
\<close>

fun py_number :: "json \<Rightarrow> pyfloat option" where
  "py_number (JBool b) = Some (Finite (if b then 1 else 0))"
| "py_number (JInt i) = Some (Finite (of_int i))"
| "py_number (JFloat f) = Some f"
| "py_number _ = None"

fun py_eq :: "json \<Rightarrow> json \<Rightarrow> bool" where
  "py_eq (JArr xs) (JArr ys) = list_all2 py_eq xs ys"
| "py_eq (JObj kvs) (JObj kws) =
     (set (map fst kvs) = set (map fst kws) \<and>
      list_all (\<lambda>(k, v). map_of kvs k = Some v \<longrightarrow>
                 (case map_of kws k of Some v' \<Rightarrow> py_eq v v' | None \<Rightarrow> False)) kvs)"
| "py_eq (JStr s) (JStr t) = (s = t)"
| "py_eq JNull JNull = True"
| "py_eq a b =
     (case (py_number a, py_number b) of (Some x, Some y) \<Rightarrow> x = y | _ \<Rightarrow> False)"

text \<open>Lists and dictionaries are unhashable; using one as a dictionary key raises.\<close>

fun py_hashable :: "json \<Rightarrow> bool" where
  "py_hashable (JArr xs) = False"
| "py_hashable (JObj kvs) = False"
| "py_hashable v = True"

text \<open>What a sequence accepts as an index: an \<^verbatim>\<open>int\<close>, or a \<^verbatim>\<open>bool\<close> as 0 or 1.\<close>

fun py_as_index :: "json \<Rightarrow> int option" where
  "py_as_index (JInt i) = Some i"
| "py_as_index (JBool b) = Some (if b then 1 else 0)"
| "py_as_index v = None"

text \<open>\<^verbatim>\<open>xs[i]\<close> on a sequence: a negative index counts from the end.\<close>

definition py_index :: "'a list \<Rightarrow> int \<Rightarrow> py_exn + 'a" where
  "py_index xs i =
     (if 0 \<le> i \<and> i < int (length xs) then Inr (xs ! nat i)
      else if i < 0 \<and> - int (length xs) \<le> i then Inr (xs ! nat (int (length xs) + i))
      else Inl IndexError)"

text \<open>
  \<^verbatim>\<open>container[key]\<close>. All keys of a decoded JSON object are strings, so any other
  hashable key is missing from it.
\<close>

fun py_getitem :: "json \<Rightarrow> json \<Rightarrow> py_exn + json" where
  "py_getitem (JObj kvs) key =
     (if \<not> py_hashable key then Inl TypeError
      else case key of
             JStr k \<Rightarrow> (case map_of kvs k of Some v \<Rightarrow> Inr v | None \<Rightarrow> Inl KeyError)
           | _ \<Rightarrow> Inl KeyError)"
| "py_getitem (JArr xs) key =
     (case py_as_index key of Some i \<Rightarrow> py_index xs i | None \<Rightarrow> Inl TypeError)"
| "py_getitem (JStr s) key =
     (case py_as_index key of
        Some i \<Rightarrow> exn_bind (py_index s i) (\<lambda>c. Inr (JStr [c]))
      | None \<Rightarrow> Inl TypeError)"
| "py_getitem container key = Inl TypeError"

text \<open>\<^verbatim>\<open>x in container\<close>.\<close>

fun py_contains :: "json \<Rightarrow> json \<Rightarrow> py_exn + bool" where
  "py_contains x (JObj kvs) =
     (if \<not> py_hashable x then Inl TypeError
      else case x of JStr k \<Rightarrow> Inr (k \<in> set (map fst kvs)) | _ \<Rightarrow> Inr False)"
| "py_contains x (JArr xs) = Inr (list_ex (py_eq x) xs)"
| "py_contains x (JStr s) = (case x of JStr t \<Rightarrow> Inr (sublist t s) | _ \<Rightarrow> Inl TypeError)"
| "py_contains x container = Inl TypeError"

text \<open>\<^verbatim>\<open>for x in container\<close>: the elements the loop visits, in order.\<close>

fun py_iter :: "json \<Rightarrow> py_exn + json list" where
  "py_iter (JArr xs) = Inr xs"
| "py_iter (JStr s) = Inr (map (\<lambda>c. JStr [c]) s)"
| "py_iter (JObj kvs) = Inr (map JStr (first_occurrences (map fst kvs)))"
| "py_iter v = Inl TypeError"

text \<open>
  The string methods. Only \<^verbatim>\<open>str\<close> has them among the values a JSON document holds.
  \<open>str_replace_char\<close> is \<^verbatim>\<open>s.replace(old, new)\<close> for a pattern \<^verbatim>\<open>old\<close> of one
  character: every occurrence is replaced.
\<close>

definition str_replace_char :: "char \<Rightarrow> string \<Rightarrow> string \<Rightarrow> string" where
  "str_replace_char old new s = concat (map (\<lambda>c. if c = old then new else [c]) s)"

fun py_replace_char :: "json \<Rightarrow> char \<Rightarrow> string \<Rightarrow> py_exn + string" where
  "py_replace_char (JStr s) old new = Inr (str_replace_char old new s)"
| "py_replace_char v old new = Inl AttributeError"

fun py_endswith :: "json \<Rightarrow> string \<Rightarrow> py_exn + bool" where
  "py_endswith (JStr s) sfx = Inr (suffix sfx s)"
| "py_endswith v sfx = Inl AttributeError"

text \<open>
  \<^verbatim>\<open>s.split()\<close>: the maximal runs of non-whitespace characters. \<open>is_space\<close> lists the
  code points below 256 for which \<^verbatim>\<open>str.isspace\<close> holds.
\<close>

definition is_space :: "char \<Rightarrow> bool" where
  "is_space c = (of_char c \<in> {9, 10, 11, 12, 13, 28, 29, 30, 31, 32, 133, 160 :: nat})"

fun tokens :: "string \<Rightarrow> string \<Rightarrow> string list" where
  "tokens cur [] = (if cur = [] then [] else [cur])"
| "tokens cur (c # cs) =
     (if is_space c then (if cur = [] then tokens [] cs else cur # tokens [] cs)
      else tokens (cur @ [c]) cs)"

definition py_split :: "string \<Rightarrow> string list" where
  "py_split s = tokens [] s"

section \<open>Timestamps\<close>

text \<open>
  A \<^verbatim>\<open>datetime\<close> object: its wall-clock fields and its \<^verbatim>\<open>tzinfo\<close> (\<open>None\<close> for a
  naive value, otherwise the UTC offset in seconds).
\<close>

record datetime =
  year :: nat
  month :: nat
  day :: nat
  hour :: nat
  minute :: nat
  second :: nat
  microsecond :: nat
  tzinfo :: "int option"

definition wall_clock :: "datetime \<Rightarrow> nat list" where
  "wall_clock d = [year d, month d, day d, hour d, minute d, second d, microsecond d]"

fun lex_le :: "nat list \<Rightarrow> nat list \<Rightarrow> bool" where
  "lex_le (a # as) (b # bs) = (a < b \<or> (a = b \<and> lex_le as bs))"
| "lex_le as bs = True"

text \<open>\<^verbatim>\<open>datetime(2025, 7, 1, tzinfo=tz)\<close>\<close>

definition cutoff_date :: "int option \<Rightarrow> datetime" where
  "cutoff_date tz =
     \<lparr>year = 2025, month = 7, day = 1, hour = 0, minute = 0, second = 0, microsecond = 0,
      tzinfo = tz\<rparr>"

text \<open>
  \<^verbatim>\<open>a >= b\<close> for two \<^verbatim>\<open>datetime\<close> values that carry the same \<^verbatim>\<open>tzinfo\<close> object, the
  only comparison the crawler makes: Python then compares the wall-clock fields and
  ignores the offset.
\<close>

definition datetime_ge :: "datetime \<Rightarrow> datetime \<Rightarrow> bool" where
  "datetime_ge a b = lex_le (wall_clock b) (wall_clock a)"

section \<open>The world outside the crawler\<close>

text \<open>
  An element of a parsed XML document (\<^verbatim>\<open>xml.etree.ElementTree.Element\<close>): tag, text
  (\<^verbatim>\<open>None\<close> when the element has none) and child elements.
\<close>

datatype xml = Element (tag: string) (elem_text: "string option") (children: "xml list")

datatype http_outcome = RequestFailed | Response nat string

datatype write_outcome = Written | OpenFailed | WriteFailed string

datatype event = HttpGet string nat | Sleep nat

datatype json_result = Decoded json | JSONDecodeError | DecoderRaised py_exn

text \<open>
  The status codes at which \<^verbatim>\<open>Response.raise_for_status\<close> of the \<^verbatim>\<open>requests\<close> library
  raises \<^verbatim>\<open>HTTPError\<close>: the client errors 400 to 499 and the server errors 500 to 599.
  Every other status passes, a final 1xx or 3xx status such as 304 included.
\<close>

definition http_error_status :: "nat \<Rightarrow> bool" where
  "http_error_status status = (400 \<le> status \<and> status < 600)"

text \<open>
  The libraries and the remote service are not part of the repository; they are the
  fields of \<open>env\<close>, and a theorem holds for all of them unless it says which
  library behaviour it assumes.
  \<^item> \<open>http_get\<close>: what \<^verbatim>\<open>session.get(url, timeout=t)\<close> does, given the requests and pauses
    made so far: it raises a \<^verbatim>\<open>RequestException\<close> or returns a response with a status
    code and a body.
  \<^item> \<open>raise_for_status\<close>: whether \<^verbatim>\<open>response.raise_for_status()\<close> raises at a status code.
  \<^item> \<open>json_loads\<close>: \<^verbatim>\<open>response.json()\<close> on a body: the decoded document; the
    decoding error, which is a \<^verbatim>\<open>RequestException\<close> (as it is from version 2.27 of the
    client library on); or another exception of the decoder (\<^verbatim>\<open>ValueError\<close> for an
    integer literal beyond the digit limit, \<^verbatim>\<open>RecursionError\<close> for too deep a nesting).
  \<^item> \<open>xml_fromstring\<close>: \<^verbatim>\<open>ET.fromstring\<close>; \<open>None\<close> is a parse error.
  \<^item> \<open>fromisoformat\<close>: \<^verbatim>\<open>datetime.fromisoformat\<close>; \<open>None\<close> is \<^verbatim>\<open>ValueError\<close>.
  \<^item> \<open>file_write\<close>: what opening a path for binary writing and writing a body does:
    all written, the open fails, or the write fails after part of the body.
\<close>

record env =
  http_get :: "event list \<Rightarrow> string \<Rightarrow> nat \<Rightarrow> http_outcome"
  raise_for_status :: "nat \<Rightarrow> bool"
  json_loads :: "string \<Rightarrow> json_result"
  xml_fromstring :: "string \<Rightarrow> xml option"
  fromisoformat :: "string \<Rightarrow> datetime option"
  file_write :: "string \<Rightarrow> string \<Rightarrow> write_outcome"

text \<open>
  The state a run changes: the files by path, and the requests and pauses made so far,
  oldest first. A path stands for itself: directories, links and other spellings of
  the same path are not modelled.
\<close>

record world =
  files :: "string \<Rightarrow> string option"
  trace :: "event list"

record crawler =
  download_dir :: string

definition session_get :: "env \<Rightarrow> string \<Rightarrow> nat \<Rightarrow> world \<Rightarrow> http_outcome \<times> world" where
  "session_get env url timeout w =
     (http_get env (trace w) url timeout, w\<lparr>trace := trace w @ [HttpGet url timeout]\<rparr>)"

definition time_sleep :: "nat \<Rightarrow> world \<Rightarrow> world" where
  "time_sleep n w = w\<lparr>trace := trace w @ [Sleep n]\<rparr>"

definition os_path_exists :: "world \<Rightarrow> string \<Rightarrow> bool" where
  "os_path_exists w path = (files w path \<noteq> None)"

text \<open>\<^verbatim>\<open>os.path.join(a, b)\<close> of \<^verbatim>\<open>posixpath\<close>; \<^verbatim>\<open>b\<close> has to be a string.\<close>

fun os_path_join :: "string \<Rightarrow> json \<Rightarrow> py_exn + string" where
  "os_path_join a (JStr b) =
     (if prefix ''/'' b then Inr b
      else if a = [] \<or> suffix ''/'' a then Inr (a @ b)
      else Inr (a @ ''/'' @ b))"
| "os_path_join a v = Inl TypeError"

section \<open>The crawler\<close>

subsection \<open>\<^verbatim>\<open>get_package_info\<close>\<close>

text \<open>
  \<^verbatim>\<open>except requests.RequestException\<close>: a failed request, a rejected status and a
  decoding error give \<^verbatim>\<open>None\<close>; any other exception of \<^verbatim>\<open>response.json()\<close> leaves the
  function.
\<close>

definition get_package_info :: "env \<Rightarrow> string \<Rightarrow> world \<Rightarrow> (py_exn + json) \<times> world" where
  "get_package_info env package_name w =
     (let url = ''https://pypi.org/pypi/'' @ package_name @ ''/json'' in
      case session_get env url 10 w of
        (RequestFailed, w') \<Rightarrow> (Inr JNull, w')
      | (Response status body, w') \<Rightarrow>
          if raise_for_status env status then (Inr JNull, w')
          else (case json_loads env body of
                  Decoded doc \<Rightarrow> (Inr doc, w')
                | JSONDecodeError \<Rightarrow> (Inr JNull, w')
                | DecoderRaised e \<Rightarrow> (Inl e, w')))"

subsection \<open>\<^verbatim>\<open>is_updated_since_july_2025\<close>\<close>

text \<open>The body of the \<^verbatim>\<open>try\<close> block; falling out of it reaches \<^verbatim>\<open>return False\<close>.\<close>

definition upload_check :: "env \<Rightarrow> json \<Rightarrow> py_exn + bool" where
  "upload_check env package_info =
     exn_bind (py_getitem package_info (JStr ''info'')) (\<lambda>info.
     exn_bind (py_getitem info (JStr ''version'')) (\<lambda>latest_version.
     exn_bind (py_getitem package_info (JStr ''releases'')) (\<lambda>releases.
     exn_bind (py_contains latest_version releases) (\<lambda>present.
     if present then
       exn_bind (py_getitem releases latest_version) (\<lambda>release_files.
       if py_truthy release_files then
         exn_bind (py_getitem release_files (JInt 0)) (\<lambda>first_file.
         exn_bind (py_getitem first_file (JStr ''upload_time_iso_8601'')) (\<lambda>upload_time.
         exn_bind (py_replace_char upload_time CHR ''Z'' ''+00:00'') (\<lambda>normalized.
         case fromisoformat env normalized of
           None \<Rightarrow> Inl ValueError
         | Some upload_date \<Rightarrow>
             Inr (datetime_ge upload_date (cutoff_date (tzinfo upload_date))))))
       else Inr False)
     else Inr False))))"

text \<open>\<^verbatim>\<open>except (KeyError, ValueError, IndexError)\<close>: any other exception leaves the function.\<close>

definition is_updated_since_july_2025 :: "env \<Rightarrow> json \<Rightarrow> py_exn + bool" where
  "is_updated_since_july_2025 env package_info =
     (case upload_check env package_info of
        Inr b \<Rightarrow> Inr b
      | Inl e \<Rightarrow> if e \<in> {KeyError, ValueError, IndexError} then Inr False else Inl e)"

subsection \<open>\<^verbatim>\<open>download_package\<close>\<close>

text \<open>
  One of the two search loops: the first element whose \<^verbatim>\<open>filename\<close> ends in the suffix,
  \<^verbatim>\<open>None\<close> when the loop ends without a \<^verbatim>\<open>break\<close>.
\<close>

fun find_suffix :: "string \<Rightarrow> json list \<Rightarrow> py_exn + json" where
  "find_suffix sfx [] = Inr JNull"
| "find_suffix sfx (file_info # rest) =
     (case py_getitem file_info (JStr ''filename'') of
        Inl e \<Rightarrow> Inl e
      | Inr name \<Rightarrow>
          (case py_endswith name sfx of
             Inl e \<Rightarrow> Inl e
           | Inr hit \<Rightarrow> if hit then Inr file_info else find_suffix sfx rest))"

text \<open>The lookups and the two loops at the head of the \<^verbatim>\<open>try\<close> block: the value of \<^verbatim>\<open>tar_gz_file\<close>.\<close>

definition select_file :: "json \<Rightarrow> py_exn + json" where
  "select_file package_info =
     exn_bind (py_getitem package_info (JStr ''info'')) (\<lambda>info.
     exn_bind (py_getitem info (JStr ''version'')) (\<lambda>latest_version.
     exn_bind (py_getitem package_info (JStr ''releases'')) (\<lambda>all_releases.
     exn_bind (py_getitem all_releases latest_version) (\<lambda>releases.
     exn_bind (py_iter releases) (\<lambda>file_infos.
     exn_bind (find_suffix ''.tar.gz'' file_infos) (\<lambda>tar_gz_file.
     if \<not> py_truthy tar_gz_file then find_suffix ''.whl'' file_infos
     else Inr tar_gz_file))))))"

text \<open>
  \<^verbatim>\<open>session.get(download_url, timeout=30)\<close>: a URL that is not a string is rejected by the
  client before any request is made.
\<close>

fun get_artifact :: "env \<Rightarrow> json \<Rightarrow> world \<Rightarrow> http_outcome \<times> world" where
  "get_artifact env (JStr url) w = session_get env url 30 w"
| "get_artifact env v w = (RequestFailed, w)"

text \<open>\<^verbatim>\<open>with open(file_path, 'wb') as f: f.write(content)\<close>; \<open>True\<close> when nothing was raised.\<close>

definition write_file :: "env \<Rightarrow> string \<Rightarrow> string \<Rightarrow> world \<Rightarrow> bool \<times> world" where
  "write_file env file_path content w =
     (case file_write env file_path content of
        Written \<Rightarrow> (True, w\<lparr>files := (files w)(file_path \<mapsto> content)\<rparr>)
      | OpenFailed \<Rightarrow> (False, w)
      | WriteFailed part \<Rightarrow> (False, w\<lparr>files := (files w)(file_path \<mapsto> part)\<rparr>))"

text \<open>
  The branch \<^verbatim>\<open>if tar_gz_file:\<close>. It runs inside the \<^verbatim>\<open>try\<close> block, whose
  \<^verbatim>\<open>except Exception\<close> turns every exception into the result \<open>False\<close>.
\<close>

definition retrieve :: "env \<Rightarrow> crawler \<Rightarrow> json \<Rightarrow> world \<Rightarrow> bool \<times> world" where
  "retrieve env self tar_gz_file w =
     (case py_getitem tar_gz_file (JStr ''url'') of
        Inl e \<Rightarrow> (False, w)
      | Inr download_url \<Rightarrow>
          (case py_getitem tar_gz_file (JStr ''filename'') of
             Inl e \<Rightarrow> (False, w)
           | Inr filename \<Rightarrow>
               (case os_path_join (download_dir self) filename of
                  Inl e \<Rightarrow> (False, w)
                | Inr file_path \<Rightarrow>
                    if os_path_exists w file_path then (True, w)
                    else
                      (case get_artifact env download_url w of
                         (RequestFailed, w') \<Rightarrow> (False, w')
                       | (Response status body, w') \<Rightarrow>
                           if raise_for_status env status then (False, w')
                           else write_file env file_path body w'))))"

definition download_package :: "env \<Rightarrow> crawler \<Rightarrow> string \<Rightarrow> json \<Rightarrow> world \<Rightarrow> bool \<times> world" where
  "download_package env self package_name package_info w =
     (case select_file package_info of
        Inl e \<Rightarrow> (False, w)
      | Inr tar_gz_file \<Rightarrow>
          if py_truthy tar_gz_file then retrieve env self tar_gz_file w
          else (False, w))"

subsection \<open>\<^verbatim>\<open>get_recent_packages_from_rss\<close>\<close>

text \<open>
  \<^verbatim>\<open>root.findall('.//item')\<close>: the elements below the root, in document order, whose tag
  is \<^verbatim>\<open>item\<close>. \<^verbatim>\<open>item.find('title')\<close>: the first child whose tag is \<^verbatim>\<open>title\<close>.
\<close>

fun descendants :: "xml \<Rightarrow> xml list" where
  "descendants (Element t x cs) = concat (map (\<lambda>c. c # descendants c) cs)"

definition findall_items :: "xml \<Rightarrow> xml list" where
  "findall_items tree = filter (\<lambda>e. tag e = ''item'') (descendants tree)"

definition find_title :: "xml \<Rightarrow> xml option" where
  "find_title item = find (\<lambda>e. tag e = ''title'') (children item)"

text \<open>
  The loop over the items, with the list \<^verbatim>\<open>packages\<close> built so far.
  \<^verbatim>\<open>title.text.split()[0]\<close> raises when the text is \<^verbatim>\<open>None\<close> and when it has no token.
\<close>

fun collect_names :: "xml list \<Rightarrow> string list \<Rightarrow> py_exn + string list" where
  "collect_names [] packages = Inr packages"
| "collect_names (item # rest) packages =
     (case find_title item of
        None \<Rightarrow> collect_names rest packages
      | Some title \<Rightarrow>
          (case elem_text title of
             None \<Rightarrow> Inl AttributeError
           | Some t \<Rightarrow>
               (case py_split t of
                  [] \<Rightarrow> Inl IndexError
                | package_name # others \<Rightarrow>
                    if package_name \<notin> set packages
                    then collect_names rest (packages @ [package_name])
                    else collect_names rest packages)))"

definition rss_url :: string where
  "rss_url = ''https://pypi.org/rss/updates.xml''"

definition get_recent_packages_from_rss :: "env \<Rightarrow> world \<Rightarrow> string list \<times> world" where
  "get_recent_packages_from_rss env w =
     (case session_get env rss_url 10 w of
        (RequestFailed, w') \<Rightarrow> ([], w')
      | (Response status body, w') \<Rightarrow>
          if raise_for_status env status then ([], w')
          else
            (case xml_fromstring env body of
               None \<Rightarrow> ([], w')
             | Some tree \<Rightarrow>
                 (case collect_names (findall_items tree) [] of
                    Inl e \<Rightarrow> ([], w')
                  | Inr packages \<Rightarrow> (take 100 packages, w'))))"

subsection \<open>\<^verbatim>\<open>crawl_and_download\<close>\<close>

text \<open>
  The \<^verbatim>\<open>for\<close> loop, with \<^verbatim>\<open>downloaded_count\<close> so far. An exception that leaves
  \<^verbatim>\<open>get_package_info\<close> or \<^verbatim>\<open>is_updated_since_july_2025\<close> is caught nowhere and ends
  the loop.
\<close>

fun process_candidates ::
  "env \<Rightarrow> crawler \<Rightarrow> string list \<Rightarrow> nat \<Rightarrow> world \<Rightarrow> (py_exn + nat) \<times> world" where
  "process_candidates env self [] downloaded_count w = (Inr downloaded_count, w)"
| "process_candidates env self (package_name # rest) downloaded_count w =
     (case get_package_info env package_name w of
        (Inl e, w1) \<Rightarrow> (Inl e, w1)
      | (Inr package_info, w1) \<Rightarrow>
          if \<not> py_truthy package_info then process_candidates env self rest downloaded_count w1
          else
            (case is_updated_since_july_2025 env package_info of
               Inl e \<Rightarrow> (Inl e, w1)
             | Inr recent \<Rightarrow>
                 if \<not> recent then process_candidates env self rest downloaded_count w1
                 else
                   (case download_package env self package_name package_info w1 of
                      (ok, w2) \<Rightarrow>
                        process_candidates env self rest
                          (if ok then downloaded_count + 1 else downloaded_count)
                          (time_sleep 1 w2))))"

text \<open>
  How a run ends: with the error message about the empty candidate list, with the
  summary count, or with an exception.
\<close>

datatype run_result = NoCandidates | Summary nat | Raised py_exn

definition crawl_and_download ::
  "env \<Rightarrow> crawler \<Rightarrow> string list option \<Rightarrow> world \<Rightarrow> run_result \<times> world" where
  "crawl_and_download env self package_list w =
     (case (case package_list of
              None \<Rightarrow> get_recent_packages_from_rss env w
            | Some given \<Rightarrow> (given, w)) of
        (candidates, w0) \<Rightarrow>
          if candidates = [] then (NoCandidates, w0)
          else
            (case process_candidates env self candidates 0 w0 of
               (Inl e, w') \<Rightarrow> (Raised e, w')
             | (Inr n, w') \<Rightarrow> (Summary n, w')))"

section \<open>Notions the properties are stated with\<close>

subsection \<open>Documents of the shape the data model describes\<close>

text \<open>
  A metadata document of the data model: an object whose \<^verbatim>\<open>info\<close>, where present, is an
  object with a string \<^verbatim>\<open>version\<close>, and whose \<^verbatim>\<open>releases\<close>, where present, maps every
  version to a list of file records; a file record is an object whose \<^verbatim>\<open>filename\<close>,
  \<^verbatim>\<open>url\<close> and \<^verbatim>\<open>upload_time_iso_8601\<close> are strings. Any of these keys may be missing.
\<close>

fun is_str :: "json \<Rightarrow> bool" where
  "is_str (JStr s) = True"
| "is_str v = False"

definition optional_str :: "(string \<times> json) list \<Rightarrow> string \<Rightarrow> bool" where
  "optional_str kvs k = (case map_of kvs k of None \<Rightarrow> True | Some v \<Rightarrow> is_str v)"

fun typed_file_record :: "json \<Rightarrow> bool" where
  "typed_file_record (JObj kvs) =
     (optional_str kvs ''filename'' \<and> optional_str kvs ''url'' \<and>
      optional_str kvs ''upload_time_iso_8601'')"
| "typed_file_record v = False"

fun typed_file_list :: "json \<Rightarrow> bool" where
  "typed_file_list (JArr fs) = list_all typed_file_record fs"
| "typed_file_list v = False"

fun typed_info :: "json \<Rightarrow> bool" where
  "typed_info (JObj kvs) = optional_str kvs ''version''"
| "typed_info v = False"

fun typed_releases :: "json \<Rightarrow> bool" where
  "typed_releases (JObj kvs) = list_all (\<lambda>(k, v). typed_file_list v) kvs"
| "typed_releases v = False"

fun typed_metadata :: "json \<Rightarrow> bool" where
  "typed_metadata (JObj kvs) =
     ((case map_of kvs ''info'' of None \<Rightarrow> True | Some i \<Rightarrow> typed_info i) \<and>
      (case map_of kvs ''releases'' of None \<Rightarrow> True | Some r \<Rightarrow> typed_releases r))"
| "typed_metadata v = False"

text \<open>
  The file list of the current version: the list that \<^verbatim>\<open>releases\<close> holds under the
  string \<^verbatim>\<open>info.version\<close>.
\<close>

definition file_records :: "json \<Rightarrow> json list option" where
  "file_records doc =
     (case doc of
        JObj kvs \<Rightarrow>
          (case (map_of kvs ''info'', map_of kvs ''releases'') of
             (Some (JObj info), Some (JObj rels)) \<Rightarrow>
               (case map_of info ''version'' of
                  Some (JStr v) \<Rightarrow>
                    (case map_of rels v of Some (JArr fs) \<Rightarrow> Some fs | _ \<Rightarrow> None)
                | _ \<Rightarrow> None)
           | _ \<Rightarrow> None)
      | _ \<Rightarrow> None)"

text \<open>The upload timestamp of the first file record of the current version.\<close>

definition first_upload_time :: "json \<Rightarrow> string option" where
  "first_upload_time doc =
     (case file_records doc of
        Some (JObj f # rest) \<Rightarrow>
          (case map_of f ''upload_time_iso_8601'' of Some (JStr ts) \<Rightarrow> Some ts | _ \<Rightarrow> None)
      | _ \<Rightarrow> None)"

subsection \<open>The selection policy\<close>

fun filename_of :: "json \<Rightarrow> string option" where
  "filename_of (JObj kvs) =
     (case map_of kvs ''filename'' of Some (JStr s) \<Rightarrow> Some s | _ \<Rightarrow> None)"
| "filename_of v = None"

definition named_with :: "string \<Rightarrow> json \<Rightarrow> bool" where
  "named_with sfx f = (case filename_of f of Some s \<Rightarrow> suffix sfx s | None \<Rightarrow> False)"

text \<open>
  The policy in the words of the specification: the first record whose filename ends in
  \<^verbatim>\<open>.tar.gz\<close>, else the first whose filename ends in \<^verbatim>\<open>.whl\<close>, else none.
\<close>

definition preferred_file :: "json list \<Rightarrow> json option" where
  "preferred_file fs =
     (case find (named_with ''.tar.gz'') fs of
        Some f \<Rightarrow> Some f
      | None \<Rightarrow> find (named_with ''.whl'') fs)"

subsection \<open>The recent-updates feed\<close>

text \<open>The first whitespace-delimited token of a title text; none when the text has no token.\<close>

definition first_token :: "string \<Rightarrow> string" where
  "first_token s = takeWhile (\<lambda>c. \<not> is_space c) (dropWhile is_space s)"

definition title_name :: "string option \<Rightarrow> string option" where
  "title_name t =
     (case t of
        None \<Rightarrow> None
      | Some s \<Rightarrow> if first_token s = [] then None else Some (first_token s))"

text \<open>The title texts of the items that have a title, in item order.\<close>

definition item_titles :: "xml \<Rightarrow> string option list" where
  "item_titles tree =
     List.map_filter (\<lambda>item. map_option elem_text (find_title item)) (findall_items tree)"

subsection \<open>What a run did\<close>

definition metadata_url :: "string \<Rightarrow> string" where
  "metadata_url package_name = ''https://pypi.org/pypi/'' @ package_name @ ''/json''"

text \<open>
  The metadata requests among some events: a metadata request is the only request a
  run makes with timeout 10 once it has its candidate list.
\<close>

fun metadata_gets :: "event list \<Rightarrow> string list" where
  "metadata_gets [] = []"
| "metadata_gets (HttpGet url t # es) = (if t = 10 then url # metadata_gets es else metadata_gets es)"
| "metadata_gets (Sleep n # es) = metadata_gets es"





section \<open>Worked examples\<close>

text \<open>
  The packages of the end-to-end scenarios of the specification, a package whose
  upload timestamp is \<^verbatim>\<open>null\<close>, and a remote service that serves them. \<open>sample_fromisoformat\<close>
  stands for \<^verbatim>\<open>datetime.fromisoformat\<close> in the examples: it reads the one form
  \<^verbatim>\<open>YYYY-MM-DDTHH:MM:SS+HH:MM\<close>, which is what the index serves once \<^verbatim>\<open>Z\<close> is replaced.
\<close>

definition digit :: "char \<Rightarrow> nat option" where
  "digit c = (let n = (of_char c :: nat) in if 48 \<le> n \<and> n \<le> 57 then Some (n - 48) else None)"

fun digits :: "nat \<Rightarrow> string \<Rightarrow> nat option" where
  "digits acc [] = Some acc"
| "digits acc (c # cs) = (case digit c of None \<Rightarrow> None | Some d \<Rightarrow> digits (10 * acc + d) cs)"

definition sample_fromisoformat :: "string \<Rightarrow> datetime option" where
  "sample_fromisoformat s =
     (if length s = 25 \<and> s ! 4 = CHR ''-'' \<and> s ! 7 = CHR ''-'' \<and> s ! 10 = CHR ''T'' \<and>
         s ! 13 = CHR '':'' \<and> s ! 16 = CHR '':'' \<and> s ! 19 \<in> {CHR ''+'', CHR ''-''} \<and>
         s ! 22 = CHR '':''
      then
        (case map (\<lambda>(p, n). digits 0 (take n (drop p s)))
                [(0, 4), (5, 2), (8, 2), (11, 2), (14, 2), (17, 2), (20, 2), (23, 2)] of
           [Some y, Some mo, Some d, Some h, Some mi, Some se, Some oh, Some om] \<Rightarrow>
             if 1 \<le> mo \<and> mo \<le> 12 \<and> 1 \<le> d \<and> d \<le> 31 \<and> h < 24 \<and> mi < 60 \<and> se < 60 \<and>
                oh < 24 \<and> om < 60
             then Some \<lparr>year = y, month = mo, day = d, hour = h, minute = mi, second = se,
                        microsecond = 0,
                        tzinfo = Some ((if s ! 19 = CHR ''-'' then - 1 else 1) *
                                       int (3600 * oh + 60 * om))\<rparr>
             else None
         | _ \<Rightarrow> None)
      else None)"

definition package_doc :: "string \<Rightarrow> string \<Rightarrow> json \<Rightarrow> json" where
  "package_doc name version upload_time =
     JObj [(''info'', JObj [(''name'', JStr name), (''version'', JStr version)]),
           (''releases'',
            JObj [(version,
                   JArr [JObj [(''filename'', JStr (name @ ''-'' @ version @ ''.tar.gz'')),
                               (''url'', JStr (''https://files.example/'' @ name)),
                               (''upload_time_iso_8601'', upload_time)]])])]"

definition demo_doc :: json where
  "demo_doc = package_doc ''demo'' ''2.0'' (JStr ''2025-07-15T00:00:00Z'')"

definition demo_offset_doc :: json where
  "demo_offset_doc = package_doc ''demo'' ''2.0'' (JStr ''2025-07-15T00:00:00+00:00'')"

definition old_doc :: json where
  "old_doc = package_doc ''old'' ''1.0'' (JStr ''2024-01-01T00:00:00Z'')"

definition undated_doc :: json where
  "undated_doc = package_doc ''undated'' ''0.1'' JNull"

definition mixed_files :: "json list" where
  "mixed_files =
     [JObj [(''filename'', JStr ''demo-2.0-py3-none-any.whl''),
            (''url'', JStr ''https://files.example/whl'')],
      JObj [(''filename'', JStr ''demo-2.0.tar.gz''),
            (''url'', JStr ''https://files.example/demo'')]]"

definition mixed_doc :: json where
  "mixed_doc =
     JObj [(''info'', JObj [(''version'', JStr ''2.0'')]),
           (''releases'', JObj [(''2.0'', JArr mixed_files)])]"

definition zip_only_doc :: json where
  "zip_only_doc =
     JObj [(''info'', JObj [(''version'', JStr ''2.0'')]),
           (''releases'',
            JObj [(''2.0'', JArr [JObj [(''filename'', JStr ''demo-2.0.zip''),
                                        (''url'', JStr ''https://files.example/zip'')]])])]"

definition feed_item :: "string option \<Rightarrow> xml" where
  "feed_item t = Element ''item'' None [Element ''title'' t [], Element ''link'' None []]"

definition sample_feed :: xml where
  "sample_feed =
     Element ''rss'' None
       [Element ''channel'' None
          [Element ''title'' (Some ''PyPI recent updates'') [],
           feed_item (Some ''foo 1.2.3''), feed_item (Some ''bar 0.1''),
           feed_item (Some ''foo 1.3.0'')]]"

definition blank_title_feed :: xml where
  "blank_title_feed =
     Element ''rss'' None
       [Element ''channel'' None [feed_item (Some ''foo 1.2.3''), feed_item (Some '' '')]]"

definition sample_http :: "event list \<Rightarrow> string \<Rightarrow> nat \<Rightarrow> http_outcome" where
  "sample_http history url timeout =
     (if url = metadata_url ''demo'' then Response 200 ''demo.json''
      else if url = metadata_url ''old'' then Response 200 ''old.json''
      else if url = metadata_url ''undated'' then Response 200 ''undated.json''
      else if url = ''https://files.example/demo'' then Response 200 ''demo archive''
      else if url = ''https://files.example/old'' then Response 503 []
      else if url = rss_url then Response 200 ''feed.xml''
      else if prefix ''https://pypi.org/'' url then Response 404 []
      else RequestFailed)"

definition sample_env :: env where
  "sample_env =
     \<lparr>http_get = sample_http,
      raise_for_status = http_error_status,
      json_loads = (\<lambda>body. if body = ''demo.json'' then Decoded demo_doc
                             else if body = ''old.json'' then Decoded old_doc
                             else if body = ''undated.json'' then Decoded undated_doc
                             else JSONDecodeError),
      xml_fromstring = (\<lambda>body. if body = ''feed.xml'' then Some sample_feed else None),
      fromisoformat = sample_fromisoformat,
      file_write = (\<lambda>path content. Written)\<rparr>"

definition blank_feed_env :: env where
  "blank_feed_env = sample_env\<lparr>xml_fromstring := (\<lambda>body. Some blank_title_feed)\<rparr>"

text \<open>The same service, except that it answers the request for the archive with 304.\<close>

definition not_modified_env :: env where
  "not_modified_env =
     sample_env\<lparr>http_get :=
       (\<lambda>history url timeout.
          if url = ''https://files.example/demo'' then Response 304 []
          else sample_http history url timeout)\<rparr>"

definition sample_crawler :: crawler where
  "sample_crawler = \<lparr>download_dir = ''pypi_packages''\<rparr>"

definition empty_world :: world where
  "empty_world = \<lparr>files = (\<lambda>path. None), trace = []\<rparr>"

definition stocked_world :: world where
  "stocked_world =
     \<lparr>files = (\<lambda>path. if path = ''pypi_packages/demo-2.0.tar.gz'' then Some ''kept'' else None),
      trace = []\<rparr>"

section \<open>Basic facts\<close>

lemma exn_bind_simps [simp]:
  "exn_bind (Inl e) f = Inl e" "exn_bind (Inr v) f = f v"
  by (simp_all add: exn_bind_def)

lemma py_index_0 [simp]: "py_index (x # xs) 0 = Inr x"
  by (simp add: py_index_def)

lemma map_of_fst: "map_of kvs k = Some v \<Longrightarrow> k \<in> fst ` set kvs"
  by (metis map_of_eq_None_iff option.distinct(1))

lemma file_records_path:
  assumes "file_records doc = Some fs"
  obtains kvs info rels v where
    "doc = JObj kvs" "map_of kvs ''info'' = Some (JObj info)"
    "map_of kvs ''releases'' = Some (JObj rels)" "map_of info ''version'' = Some (JStr v)"
    "map_of rels v = Some (JArr fs)"
  using assms
  by (auto simp: file_records_def split: json.splits option.splits)

lemma first_upload_time_path:
  assumes "first_upload_time doc = Some ts"
  obtains f rest where
    "file_records doc = Some (JObj f # rest)"
    "map_of f ''upload_time_iso_8601'' = Some (JStr ts)"
  using assms
  by (auto simp: first_upload_time_def split: json.splits option.splits list.splits)

section \<open>The recency filter\<close>

lemma upload_check_first:
  assumes "first_upload_time doc = Some ts"
  shows "upload_check env doc =
           (case fromisoformat env (str_replace_char CHR ''Z'' ''+00:00'' ts) of
              None \<Rightarrow> Inl ValueError
            | Some d \<Rightarrow> Inr (datetime_ge d (cutoff_date (tzinfo d))))"
proof -
  from assms obtain f rest where fs: "file_records doc = Some (JObj f # rest)"
    and ts: "map_of f ''upload_time_iso_8601'' = Some (JStr ts)"
    by (rule first_upload_time_path)
  from fs obtain kvs info rels v where
    "doc = JObj kvs" "map_of kvs ''info'' = Some (JObj info)"
    "map_of kvs ''releases'' = Some (JObj rels)" "map_of info ''version'' = Some (JStr v)"
    and rels: "map_of rels v = Some (JArr (JObj f # rest))"
    by (rule file_records_path)
  moreover from rels have "v \<in> fst ` set rels"
    by (rule map_of_fst)
  ultimately show ?thesis
    using ts by (simp add: upload_check_def)
qed

lemma typed_releases_lookup:
  "typed_releases (JObj rels) \<Longrightarrow> map_of rels v = Some fs \<Longrightarrow> typed_file_list fs"
  by (auto simp: list_all_iff dest!: map_of_SomeD)

lemma typed_file_list_cases:
  assumes "typed_file_list fs"
  obtains "fs = JArr []"
  | f rest where "fs = JArr (JObj f # rest)" "optional_str f ''upload_time_iso_8601''"
proof -
  from assms obtain xs where fs: "fs = JArr xs" and every: "list_all typed_file_record xs"
    by (cases fs) auto
  show thesis
  proof (cases xs)
    case Nil
    with fs that(1) show thesis by simp
  next
    case (Cons x rest)
    with every have "typed_file_record x" by simp
    then obtain f where "x = JObj f" "optional_str f ''upload_time_iso_8601''"
      by (cases x) auto
    with fs Cons that(2) show thesis by simp
  qed
qed

lemma upload_check_typed_none:
  assumes "typed_metadata doc" "first_upload_time doc = None"
  shows "upload_check env doc = Inr False \<or> upload_check env doc = Inl KeyError"
proof -
  from assms(1) obtain kvs where doc: "doc = JObj kvs"
    by (cases doc) auto
  show ?thesis
  proof (cases "map_of kvs ''info''")
    case None
    then show ?thesis by (simp add: doc upload_check_def)
  next
    case (Some i)
    with assms(1) doc obtain info where i: "i = JObj info" and v: "optional_str info ''version''"
      by (cases i) auto
    show ?thesis
    proof (cases "map_of info ''version''")
      case None
      then show ?thesis by (simp add: doc upload_check_def Some i)
    next
      case ver: (Some vj)
      with v obtain ver_s where vj: "vj = JStr ver_s"
        by (cases vj) (auto simp: optional_str_def)
      show ?thesis
      proof (cases "map_of kvs ''releases''")
        case None
        then show ?thesis by (simp add: doc upload_check_def Some i ver)
      next
        case rel: (Some r)
        with assms(1) doc obtain rels where r: "r = JObj rels" and tr: "typed_releases (JObj rels)"
          by (cases r) auto
        show ?thesis
        proof (cases "map_of rels ver_s")
          case None
          then have "ver_s \<notin> fst ` set rels"
            by (simp add: map_of_eq_None_iff)
          then show ?thesis
            by (simp add: doc upload_check_def Some i ver vj rel r)
        next
          case fl: (Some fs)
          then have in_rels: "ver_s \<in> fst ` set rels"
            by (rule map_of_fst)
          from typed_releases_lookup [OF tr fl] show ?thesis
          proof (cases rule: typed_file_list_cases)
            case 1
            then show ?thesis
              using in_rels by (simp add: doc upload_check_def Some i ver vj rel r fl)
          next
            case (2 f rest)
            with assms(2) show ?thesis
              using in_rels
              by (auto simp: doc upload_check_def Some i ver vj rel r fl first_upload_time_def
                             file_records_def optional_str_def
                       split: option.splits json.splits)
          qed
        qed
      qed
    qed
  qed
qed

lemma is_updated_first:
  assumes "first_upload_time doc = Some ts"
  shows "is_updated_since_july_2025 env doc =
           Inr (case fromisoformat env (str_replace_char CHR ''Z'' ''+00:00'' ts) of
                  None \<Rightarrow> False
                | Some d \<Rightarrow> datetime_ge d (cutoff_date (tzinfo d)))"
  by (simp add: is_updated_since_july_2025_def upload_check_first [OF assms]
           split: option.splits)

lemma is_updated_typed_none:
  assumes "typed_metadata doc" "first_upload_time doc = None"
  shows "is_updated_since_july_2025 env doc = Inr False"
  using upload_check_typed_none [OF assms, of env]
  by (auto simp: is_updated_since_july_2025_def)

lemma first_upload_time_iff:
  "first_upload_time doc = Some ts \<longleftrightarrow>
     (\<exists>kvs info v rels f rest.
        doc = JObj kvs \<and> map_of kvs ''info'' = Some (JObj info) \<and>
        map_of info ''version'' = Some (JStr v) \<and>
        map_of kvs ''releases'' = Some (JObj rels) \<and>
        map_of rels v = Some (JArr (JObj f # rest)) \<and>
        map_of f ''upload_time_iso_8601'' = Some (JStr ts))"
  by (auto simp: first_upload_time_def file_records_def
           split: json.splits option.splits list.splits)

lemma wall_clock_cutoff:
  "datetime_ge d (cutoff_date tz) = lex_le [2025, 7, 1, 0, 0, 0, 0] (wall_clock d)"
  by (simp add: datetime_ge_def cutoff_date_def wall_clock_def)

text \<open>
  On a metadata document of the shape the data model describes (\<open>typed_metadata\<close>:
  each of \<^verbatim>\<open>info\<close>, \<^verbatim>\<open>version\<close>, \<^verbatim>\<open>releases\<close> and the fields of the file records
  either missing or of its type), the recency filter raises nothing: it returns
  \<open>True\<close> if and only if the
  current version is a key of \<^verbatim>\<open>releases\<close>, its file list is not empty, the upload
  timestamp of the first file record parses once \<^verbatim>\<open>Z\<close> is replaced by \<^verbatim>\<open>+00:00\<close>, and the
  wall-clock fields of the parsed value are on or after 2025-07-01 00:00:00, and it
  returns \<open>False\<close> in every other case.
\<close>

theorem recency_filter_typed:
  assumes "typed_metadata doc"
  shows "is_updated_since_july_2025 env doc =
           Inr (\<exists>kvs info v rels f rest ts d.
                  doc = JObj kvs \<and> map_of kvs ''info'' = Some (JObj info) \<and>
                  map_of info ''version'' = Some (JStr v) \<and>
                  map_of kvs ''releases'' = Some (JObj rels) \<and>
                  map_of rels v = Some (JArr (JObj f # rest)) \<and>
                  map_of f ''upload_time_iso_8601'' = Some (JStr ts) \<and>
                  fromisoformat env (str_replace_char CHR ''Z'' ''+00:00'' ts) = Some d \<and>
                  lex_le [2025, 7, 1, 0, 0, 0, 0] (wall_clock d))"
proof (cases "first_upload_time doc")
  case None
  then have "\<And>ts. first_upload_time doc \<noteq> Some ts"
    by simp
  then have "\<not> (\<exists>kvs info v rels f rest ts d.
                  doc = JObj kvs \<and> map_of kvs ''info'' = Some (JObj info) \<and>
                  map_of info ''version'' = Some (JStr v) \<and>
                  map_of kvs ''releases'' = Some (JObj rels) \<and>
                  map_of rels v = Some (JArr (JObj f # rest)) \<and>
                  map_of f ''upload_time_iso_8601'' = Some (JStr ts) \<and>
                  fromisoformat env (str_replace_char CHR ''Z'' ''+00:00'' ts) = Some d \<and>
                  lex_le [2025, 7, 1, 0, 0, 0, 0] (wall_clock d))"
    unfolding first_upload_time_iff by blast
  with is_updated_typed_none [OF assms None, of env] show ?thesis
    by simp
next
  case (Some ts)
  have "(\<exists>kvs info v rels f rest ts' d.
                  doc = JObj kvs \<and> map_of kvs ''info'' = Some (JObj info) \<and>
                  map_of info ''version'' = Some (JStr v) \<and>
                  map_of kvs ''releases'' = Some (JObj rels) \<and>
                  map_of rels v = Some (JArr (JObj f # rest)) \<and>
                  map_of f ''upload_time_iso_8601'' = Some (JStr ts') \<and>
                  fromisoformat env (str_replace_char CHR ''Z'' ''+00:00'' ts') = Some d \<and>
                  lex_le [2025, 7, 1, 0, 0, 0, 0] (wall_clock d))
        \<longleftrightarrow> (\<exists>ts' d. first_upload_time doc = Some ts' \<and>
                  fromisoformat env (str_replace_char CHR ''Z'' ''+00:00'' ts') = Some d \<and>
                  lex_le [2025, 7, 1, 0, 0, 0, 0] (wall_clock d))"
    unfolding first_upload_time_iff by blast
  also have "\<dots> \<longleftrightarrow> (case fromisoformat env (str_replace_char CHR ''Z'' ''+00:00'' ts) of
                  None \<Rightarrow> False
                | Some d \<Rightarrow> datetime_ge d (cutoff_date (tzinfo d)))"
    by (simp add: Some wall_clock_cutoff split: option.splits)
  finally show ?thesis
    by (simp add: is_updated_first [OF Some])
qed

theorem recency_filter_typed_witness:
  "typed_metadata demo_doc \<and>
   is_updated_since_july_2025 sample_env demo_doc = Inr True \<and>
   (\<exists>kvs info v rels f rest ts d.
      demo_doc = JObj kvs \<and> map_of kvs ''info'' = Some (JObj info) \<and>
      map_of info ''version'' = Some (JStr v) \<and>
      map_of kvs ''releases'' = Some (JObj rels) \<and>
      map_of rels v = Some (JArr (JObj f # rest)) \<and>
      map_of f ''upload_time_iso_8601'' = Some (JStr ts) \<and>
      fromisoformat sample_env (str_replace_char CHR ''Z'' ''+00:00'' ts) = Some d \<and>
      lex_le [2025, 7, 1, 0, 0, 0, 0] (wall_clock d))"
proof -
  have typed: "typed_metadata demo_doc"
    by code_simp
  have accepted: "is_updated_since_july_2025 sample_env demo_doc = Inr True"
    by code_simp
  from recency_filter_typed [OF typed, of sample_env] typed accepted show ?thesis
    by simp
qed

text \<open>
  C1 fails on the code. The claim has the filter return \<open>False\<close> whenever a lookup or
  the parse fails. For a document whose first upload timestamp is \<^verbatim>\<open>null\<close> the lookup
  of the timestamp gives \<^verbatim>\<open>None\<close>, \<^verbatim>\<open>None.replace\<close> raises \<^verbatim>\<open>AttributeError\<close>, the
  \<^verbatim>\<open>except\<close> clause lists \<^verbatim>\<open>KeyError\<close>, \<^verbatim>\<open>ValueError\<close> and \<^verbatim>\<open>IndexError\<close> only, and the
  filter returns nothing: the exception leaves it.
\<close>

theorem recency_filter_null_timestamp:
  "is_updated_since_july_2025 sample_env undated_doc = Inl AttributeError"
  by code_simp

lemma str_replace_char_append:
  "str_replace_char old new (s @ t) = str_replace_char old new s @ str_replace_char old new t"
  by (simp add: str_replace_char_def)

text \<open>
  C6. Two metadata documents whose first-file upload timestamps are a common stem
  followed by \<^verbatim>\<open>Z\<close> in one and by \<^verbatim>\<open>+00:00\<close> in the other get the same result from the
  recency filter. The documents need not agree anywhere else: the result depends on
  the document through this timestamp only.
\<close>

theorem recency_filter_Z_offset:
  assumes "first_upload_time doc_z = Some (stem @ ''Z'')"
    and "first_upload_time doc_o = Some (stem @ ''+00:00'')"
  shows "is_updated_since_july_2025 env doc_z = is_updated_since_july_2025 env doc_o"
proof -
  have "str_replace_char CHR ''Z'' ''+00:00'' (stem @ ''Z'') =
        str_replace_char CHR ''Z'' ''+00:00'' (stem @ ''+00:00'')"
    unfolding str_replace_char_append by (simp add: str_replace_char_def)
  then show ?thesis
    by (simp add: is_updated_first [OF assms(1)] is_updated_first [OF assms(2)])
qed

theorem recency_filter_Z_offset_witness:
  "first_upload_time demo_doc = Some (''2025-07-15T00:00:00'' @ ''Z'') \<and>
   first_upload_time demo_offset_doc = Some (''2025-07-15T00:00:00'' @ ''+00:00'') \<and>
   is_updated_since_july_2025 sample_env demo_doc =
   is_updated_since_july_2025 sample_env demo_offset_doc"
proof -
  have z: "first_upload_time demo_doc = Some (''2025-07-15T00:00:00'' @ ''Z'')"
    by code_simp
  have o: "first_upload_time demo_offset_doc = Some (''2025-07-15T00:00:00'' @ ''+00:00'')"
    by code_simp
  from recency_filter_Z_offset [OF z o, of sample_env] z o show ?thesis
    by simp
qed

section \<open>Selecting and retrieving the artifact\<close>

lemma filename_of_cases:
  assumes "filename_of f = Some s"
  obtains kvs where "f = JObj kvs" "map_of kvs ''filename'' = Some (JStr s)"
  using assms
  by (cases f) (auto split: option.splits json.splits)

lemma find_suffix_records:
  assumes "list_all (\<lambda>f. filename_of f \<noteq> None) fs"
  shows "find_suffix sfx fs =
           Inr (case find (named_with sfx) fs of Some f \<Rightarrow> f | None \<Rightarrow> JNull)"
  using assms
proof (induction fs)
  case Nil
  show ?case by simp
next
  case (Cons f fs)
  then obtain s where "filename_of f = Some s"
    by auto
  then obtain kvs where "f = JObj kvs" "map_of kvs ''filename'' = Some (JStr s)"
    by (rule filename_of_cases)
  with Cons show ?case
    by (simp add: named_with_def)
qed

lemma named_record_truthy:
  assumes "filename_of f \<noteq> None"
  shows "py_truthy f"
proof -
  from assms obtain s where "filename_of f = Some s"
    by auto
  then obtain kvs where "f = JObj kvs" "map_of kvs ''filename'' = Some (JStr s)"
    by (rule filename_of_cases)
  then show ?thesis
    by auto
qed

lemma find_in_set: "find P xs = Some x \<Longrightarrow> x \<in> set xs \<and> P x"
  by (induction xs) (auto split: if_splits)

lemma select_file_records:
  assumes "file_records package_info = Some fs"
    and "list_all (\<lambda>f. filename_of f \<noteq> None) fs"
  shows "select_file package_info =
           Inr (case preferred_file fs of Some f \<Rightarrow> f | None \<Rightarrow> JNull)"
proof -
  from assms(1) obtain kvs info rels v where
    "package_info = JObj kvs" "map_of kvs ''info'' = Some (JObj info)"
    "map_of kvs ''releases'' = Some (JObj rels)" "map_of info ''version'' = Some (JStr v)"
    "map_of rels v = Some (JArr fs)"
    by (rule file_records_path)
  then have step: "select_file package_info =
      exn_bind (find_suffix ''.tar.gz'' fs) (\<lambda>tar_gz_file.
        if \<not> py_truthy tar_gz_file then find_suffix ''.whl'' fs else Inr tar_gz_file)"
    by (simp add: select_file_def)
  show ?thesis
  proof (cases "find (named_with ''.tar.gz'') fs")
    case None
    have "find_suffix ''.tar.gz'' fs = Inr JNull"
      unfolding find_suffix_records [OF assms(2)] None by simp
    then show ?thesis
      unfolding step preferred_file_def None
      by (simp add: find_suffix_records [OF assms(2)])
  next
    case (Some f)
    then have "f \<in> set fs"
      by (auto dest: find_in_set)
    with assms(2) have "py_truthy f"
      by (simp add: list_all_iff named_record_truthy)
    moreover have "find_suffix ''.tar.gz'' fs = Inr f"
      unfolding find_suffix_records [OF assms(2)] Some by simp
    ultimately show ?thesis
      unfolding step preferred_file_def Some by simp
  qed
qed

lemma preferred_file_truthy:
  assumes "list_all (\<lambda>f. filename_of f \<noteq> None) fs" "preferred_file fs = Some f"
  shows "py_truthy f"
proof -
  from assms(2) have "f \<in> set fs"
    by (auto simp: preferred_file_def split: option.splits dest: find_in_set)
  with assms(1) show ?thesis
    by (simp add: list_all_iff named_record_truthy)
qed

text \<open>
  C2. For every list of file records of the current version (objects with a string
  \<^verbatim>\<open>filename\<close>), \<^verbatim>\<open>download_package\<close> selects the first record whose filename ends in
  \<^verbatim>\<open>.tar.gz\<close>, and the first whose filename ends in \<^verbatim>\<open>.whl\<close> only when no filename ends in
  \<^verbatim>\<open>.tar.gz\<close>, and goes on with that record; a record with \<^verbatim>\<open>.tar.gz\<close> anywhere in the
  list makes the selected record a \<^verbatim>\<open>.tar.gz\<close> one; and when neither suffix occurs it
  returns \<open>False\<close> and leaves the world, the requests made included, as it was.
\<close>

theorem selection_policy:
  assumes "file_records package_info = Some fs"
    and "list_all (\<lambda>f. filename_of f \<noteq> None) fs"
  shows "select_file package_info =
           Inr (case find (named_with ''.tar.gz'') fs of
                  Some f \<Rightarrow> f
                | None \<Rightarrow> (case find (named_with ''.whl'') fs of Some f \<Rightarrow> f | None \<Rightarrow> JNull)) \<and>
         download_package env self package_name package_info w =
           (case preferred_file fs of
              Some f \<Rightarrow> retrieve env self f w
            | None \<Rightarrow> (False, w)) \<and>
         ((\<exists>t \<in> set fs. named_with ''.tar.gz'' t) \<longrightarrow>
            (\<exists>f. preferred_file fs = Some f \<and> named_with ''.tar.gz'' f)) \<and>
         (\<not> (\<exists>t \<in> set fs. named_with ''.tar.gz'' t \<or> named_with ''.whl'' t) \<longrightarrow>
            download_package env self package_name package_info w = (False, w))"
proof -
  note sel = select_file_records [OF assms]
  have first: "select_file package_info =
           Inr (case find (named_with ''.tar.gz'') fs of
                  Some f \<Rightarrow> f
                | None \<Rightarrow> (case find (named_with ''.whl'') fs of Some f \<Rightarrow> f | None \<Rightarrow> JNull))"
    by (simp add: sel preferred_file_def split: option.splits)
  have second: "download_package env self package_name package_info w =
           (case preferred_file fs of
              Some f \<Rightarrow> retrieve env self f w
            | None \<Rightarrow> (False, w))"
  proof (cases "preferred_file fs")
    case None
    then show ?thesis by (simp add: download_package_def sel)
  next
    case (Some f)
    with preferred_file_truthy [OF assms(2)] show ?thesis
      by (simp add: download_package_def sel)
  qed
  have third: "(\<exists>t \<in> set fs. named_with ''.tar.gz'' t) \<longrightarrow>
            (\<exists>f. preferred_file fs = Some f \<and> named_with ''.tar.gz'' f)"
  proof
    assume "\<exists>t \<in> set fs. named_with ''.tar.gz'' t"
    then have "find (named_with ''.tar.gz'') fs \<noteq> None"
      by (auto simp: find_None_iff)
    then obtain f where "find (named_with ''.tar.gz'') fs = Some f"
      by blast
    then show "\<exists>f. preferred_file fs = Some f \<and> named_with ''.tar.gz'' f"
      by (auto simp: preferred_file_def dest: find_in_set)
  qed
  have fourth: "\<not> (\<exists>t \<in> set fs. named_with ''.tar.gz'' t \<or> named_with ''.whl'' t) \<longrightarrow>
            download_package env self package_name package_info w = (False, w)"
  proof
    assume "\<not> (\<exists>t \<in> set fs. named_with ''.tar.gz'' t \<or> named_with ''.whl'' t)"
    then have "find (named_with ''.tar.gz'') fs = None" "find (named_with ''.whl'') fs = None"
      by (auto simp: find_None_iff)
    then have "preferred_file fs = None"
      by (simp add: preferred_file_def)
    then show "download_package env self package_name package_info w = (False, w)"
      by (simp add: second)
  qed
  from first second third fourth show ?thesis
    by (intro conjI)
qed

theorem selection_policy_witness:
  "file_records mixed_doc = Some mixed_files \<and>
   list_all (\<lambda>f. filename_of f \<noteq> None) mixed_files \<and>
   (\<exists>t \<in> set mixed_files. named_with ''.tar.gz'' t) \<and>
   (\<exists>t \<in> set mixed_files. named_with ''.whl'' t) \<and>
   select_file mixed_doc = Inr (mixed_files ! 1) \<and>
   preferred_file (rev mixed_files) = Some (mixed_files ! 1) \<and>
   \<not> (\<exists>t \<in> set [JObj [(''filename'', JStr ''demo-2.0.zip''),
                          (''url'', JStr ''https://files.example/zip'')]].
         named_with ''.tar.gz'' t \<or> named_with ''.whl'' t) \<and>
   download_package sample_env sample_crawler ''demo'' zip_only_doc empty_world =
     (False, empty_world)"
proof -
  have records: "file_records mixed_doc = Some mixed_files"
    by code_simp
  have named: "list_all (\<lambda>f. filename_of f \<noteq> None) mixed_files"
    by code_simp
  have tar: "find (named_with ''.tar.gz'') mixed_files = Some (mixed_files ! 1)"
    by code_simp
  have has_tar: "\<exists>t \<in> set mixed_files. named_with ''.tar.gz'' t"
    by code_simp
  have has_whl: "\<exists>t \<in> set mixed_files. named_with ''.whl'' t"
    by code_simp
  have reversed: "preferred_file (rev mixed_files) = Some (mixed_files ! 1)"
    by code_simp
  let ?zip = "[JObj [(''filename'', JStr ''demo-2.0.zip''),
                     (''url'', JStr ''https://files.example/zip'')]]"
  have zip_records: "file_records zip_only_doc = Some ?zip"
    by code_simp
  have zip_named: "list_all (\<lambda>f. filename_of f \<noteq> None) ?zip"
    by code_simp
  have neither: "\<not> (\<exists>t \<in> set ?zip. named_with ''.tar.gz'' t \<or> named_with ''.whl'' t)"
    by code_simp
  from selection_policy [OF records named, of sample_env sample_crawler "''demo''" empty_world]
  have "select_file mixed_doc = Inr (mixed_files ! 1)"
    by (simp add: tar)
  moreover
  from selection_policy [OF zip_records zip_named, of sample_env sample_crawler "''demo''" empty_world]
    neither
  have "download_package sample_env sample_crawler ''demo'' zip_only_doc empty_world =
          (False, empty_world)"
    by blast
  ultimately show ?thesis
    using records named has_tar has_whl reversed neither by blast
qed

lemma get_artifact_files [simp]: "files (snd (get_artifact env u w)) = files w"
  by (cases u) (simp_all add: session_get_def)

lemma retrieve_again:
  assumes "retrieve env self f w0 = (True, w1)"
  shows "retrieve env self f w1 = (True, w1)"
proof (cases "py_getitem f (JStr ''url'')")
  case (Inl e)
  with assms show ?thesis by (simp add: retrieve_def)
next
  case url: (Inr u)
  show ?thesis
  proof (cases "py_getitem f (JStr ''filename'')")
    case (Inl e)
    with assms url show ?thesis by (simp add: retrieve_def)
  next
    case name: (Inr n)
    show ?thesis
    proof (cases "os_path_join (download_dir self) n")
      case (Inl e)
      with assms url name show ?thesis by (simp add: retrieve_def)
    next
      case path: (Inr p)
      show ?thesis
      proof (cases "os_path_exists w0 p")
        case True
        with assms url name path show ?thesis by (simp add: retrieve_def)
      next
        case False
        obtain outcome w' where got: "get_artifact env u w0 = (outcome, w')"
          by (cases "get_artifact env u w0")
        with assms url name path False have "os_path_exists w1 p"
          by (auto simp: retrieve_def write_file_def os_path_exists_def
                   split: http_outcome.splits if_splits write_outcome.splits)
        then show ?thesis
          by (simp add: retrieve_def url name path)
      qed
    qed
  qed
qed

lemma download_package_again:
  assumes "download_package env self package_name package_info w0 = (True, w1)"
  shows "download_package env self package_name package_info w1 = (True, w1)"
proof (cases "select_file package_info")
  case (Inl e)
  with assms show ?thesis by (simp add: download_package_def)
next
  case (Inr f)
  with assms have "py_truthy f" and "retrieve env self f w0 = (True, w1)"
    by (auto simp: download_package_def split: if_splits)
  with Inr show ?thesis
    by (simp add: download_package_def retrieve_again)
qed

text \<open>
  C5. When the selected record has a \<^verbatim>\<open>url\<close> and a file already exists at the path
  that \<^verbatim>\<open>os.path.join\<close> makes of the output directory and the record's filename,
  \<^verbatim>\<open>download_package\<close> returns \<open>True\<close> and leaves the world as it was: no request is
  made and no file is touched. And whenever a run of \<^verbatim>\<open>download_package\<close> reports
  success, running it again on the world it left reports success and changes nothing.
\<close>

theorem existing_file_skipped:
  assumes "select_file package_info = Inr (JObj entry)"
    and "map_of entry ''filename'' = Some (JStr name)"
    and "map_of entry ''url'' = Some download_url"
    and "os_path_join (download_dir self) (JStr name) = Inr file_path"
    and "files w file_path \<noteq> None"
  shows "download_package env self package_name package_info w = (True, w) \<and>
         (fst (download_package env self package_name package_info w0) \<longrightarrow>
            download_package env self package_name package_info
                (snd (download_package env self package_name package_info w0)) =
              (True, snd (download_package env self package_name package_info w0)))"
proof
  from assms(2) have "entry \<noteq> []"
    by auto
  with assms show "download_package env self package_name package_info w = (True, w)"
    by (simp add: download_package_def retrieve_def os_path_exists_def)
next
  show "fst (download_package env self package_name package_info w0) \<longrightarrow>
            download_package env self package_name package_info
                (snd (download_package env self package_name package_info w0)) =
              (True, snd (download_package env self package_name package_info w0))"
  proof
    assume "fst (download_package env self package_name package_info w0)"
    then have "download_package env self package_name package_info w0 =
                 (True, snd (download_package env self package_name package_info w0))"
      by (cases "download_package env self package_name package_info w0") simp
    then show "download_package env self package_name package_info
                (snd (download_package env self package_name package_info w0)) =
              (True, snd (download_package env self package_name package_info w0))"
      by (rule download_package_again)
  qed
qed

theorem existing_file_skipped_witness:
  "select_file demo_doc =
     Inr (JObj [(''filename'', JStr ''demo-2.0.tar.gz''),
                (''url'', JStr ''https://files.example/demo''),
                (''upload_time_iso_8601'', JStr ''2025-07-15T00:00:00Z'')]) \<and>
   os_path_join (download_dir sample_crawler) (JStr ''demo-2.0.tar.gz'') =
     Inr ''pypi_packages/demo-2.0.tar.gz'' \<and>
   files stocked_world ''pypi_packages/demo-2.0.tar.gz'' \<noteq> None \<and>
   download_package sample_env sample_crawler ''demo'' demo_doc stocked_world =
     (True, stocked_world) \<and>
   fst (download_package sample_env sample_crawler ''demo'' demo_doc empty_world) \<and>
   download_package sample_env sample_crawler ''demo'' demo_doc
       (snd (download_package sample_env sample_crawler ''demo'' demo_doc empty_world)) =
     (True, snd (download_package sample_env sample_crawler ''demo'' demo_doc empty_world))"
proof -
  let ?entry = "[(''filename'', JStr ''demo-2.0.tar.gz''),
                 (''url'', JStr ''https://files.example/demo''),
                 (''upload_time_iso_8601'', JStr ''2025-07-15T00:00:00Z'')]"
  have selected: "select_file demo_doc = Inr (JObj ?entry)"
    by code_simp
  have name: "map_of ?entry ''filename'' = Some (JStr ''demo-2.0.tar.gz'')"
    by simp
  have url: "map_of ?entry ''url'' = Some (JStr ''https://files.example/demo'')"
    by simp
  have path: "os_path_join (download_dir sample_crawler) (JStr ''demo-2.0.tar.gz'') =
                Inr ''pypi_packages/demo-2.0.tar.gz''"
    by code_simp
  have present: "files stocked_world ''pypi_packages/demo-2.0.tar.gz'' \<noteq> None"
    by (simp add: stocked_world_def)
  have fresh: "fst (download_package sample_env sample_crawler ''demo'' demo_doc empty_world)"
    by code_simp
  from existing_file_skipped [OF selected name url path present,
      of sample_env "''demo''" empty_world] selected path present fresh
  show ?thesis
    by blast
qed

lemma retrieve_request_failed:
  assumes "py_getitem f (JStr ''url'') = Inr u"
    and "py_getitem f (JStr ''filename'') = Inr n"
    and "os_path_join (download_dir self) n = Inr p"
    and "\<not> os_path_exists w p"
    and "fst (get_artifact env u w) = RequestFailed \<or>
         (\<exists>status body. fst (get_artifact env u w) = Response status body \<and>
                         raise_for_status env status)"
  shows "\<not> fst (retrieve env self f w) \<and> files (snd (retrieve env self f w)) = files w"
proof -
  obtain outcome w' where got: "get_artifact env u w = (outcome, w')"
    by (cases "get_artifact env u w")
  then have "files w' = files w"
    using get_artifact_files [of env u w] by simp
  with assms got show ?thesis
    by (auto simp: retrieve_def)
qed

lemma retrieve_changes_files:
  assumes "files (snd (retrieve env self f w)) \<noteq> files w"
  shows "\<exists>u status body. py_getitem f (JStr ''url'') = Inr u \<and>
           fst (get_artifact env u w) = Response status body \<and>
           \<not> raise_for_status env status"
proof (cases "py_getitem f (JStr ''url'')")
  case (Inl e)
  with assms show ?thesis by (simp add: retrieve_def)
next
  case url: (Inr u)
  obtain outcome w' where got: "get_artifact env u w = (outcome, w')"
    by (cases "get_artifact env u w")
  then have same: "files w' = files w"
    using get_artifact_files [of env u w] by simp
  show ?thesis
  proof (cases outcome)
    case RequestFailed
    with assms url got same show ?thesis
      by (auto simp: retrieve_def split: sum.splits if_splits)
  next
    case (Response status body)
    with assms url got same show ?thesis
      by (auto simp: retrieve_def split: sum.splits if_splits)
  qed
qed

text \<open>
  C9, as amended. With the client library that raises at the statuses 400 to 599,
  \<^verbatim>\<open>download_package\<close> returns \<open>False\<close> and leaves every file as it was when a lookup
  fails before a record is selected, and when the request for the selected record's
  URL is made and fails, by an exception of \<^verbatim>\<open>session.get\<close> or by a 4xx or 5xx status.
  Whenever the files differ after the call, the request had been answered with a
  status outside 400 to 599: only the write step changes files.
\<close>

theorem failed_download_keeps_files:
  assumes "raise_for_status env = http_error_status"
  shows
  "(select_file package_info = Inl e \<longrightarrow>
      download_package env self package_name package_info w = (False, w)) \<and>
   (select_file package_info = Inr f \<and> py_truthy f \<and>
    py_getitem f (JStr ''url'') = Inr u \<and> py_getitem f (JStr ''filename'') = Inr n \<and>
    os_path_join (download_dir self) n = Inr p \<and> \<not> os_path_exists w p \<and>
    (fst (get_artifact env u w) = RequestFailed \<or>
     (\<exists>status body. fst (get_artifact env u w) = Response status body \<and>
                     400 \<le> status \<and> status < 600)) \<longrightarrow>
      \<not> fst (download_package env self package_name package_info w) \<and>
      files (snd (download_package env self package_name package_info w)) = files w) \<and>
   (files (snd (download_package env self package_name package_info w)) \<noteq> files w \<longrightarrow>
      (\<exists>g v status body.
         select_file package_info = Inr g \<and> py_getitem g (JStr ''url'') = Inr v \<and>
         fst (get_artifact env v w) = Response status body \<and>
         \<not> (400 \<le> status \<and> status < 600)))"
proof (intro conjI impI)
  assume "select_file package_info = Inl e"
  then show "download_package env self package_name package_info w = (False, w)"
    by (simp add: download_package_def)
next
  assume a: "select_file package_info = Inr f \<and> py_truthy f \<and>
    py_getitem f (JStr ''url'') = Inr u \<and> py_getitem f (JStr ''filename'') = Inr n \<and>
    os_path_join (download_dir self) n = Inr p \<and> \<not> os_path_exists w p \<and>
    (fst (get_artifact env u w) = RequestFailed \<or>
     (\<exists>status body. fst (get_artifact env u w) = Response status body \<and>
                     400 \<le> status \<and> status < 600))"
  then have same: "download_package env self package_name package_info w = retrieve env self f w"
    by (simp add: download_package_def)
  from a assms have "fst (get_artifact env u w) = RequestFailed \<or>
     (\<exists>status body. fst (get_artifact env u w) = Response status body \<and>
                     raise_for_status env status)"
    by (auto simp: http_error_status_def)
  with a have "\<not> fst (retrieve env self f w) \<and> files (snd (retrieve env self f w)) = files w"
    by (intro retrieve_request_failed [of f u n self p w env]) simp_all
  then show "\<not> fst (download_package env self package_name package_info w)"
    and "files (snd (download_package env self package_name package_info w)) = files w"
    by (simp_all add: same)
next
  assume changed: "files (snd (download_package env self package_name package_info w)) \<noteq> files w"
  then obtain g where g: "select_file package_info = Inr g" and "py_truthy g"
    by (cases "select_file package_info") (auto simp: download_package_def split: if_splits)
  with changed have "files (snd (retrieve env self g w)) \<noteq> files w"
    by (simp add: download_package_def)
  from retrieve_changes_files [OF this] obtain v status body where
    "py_getitem g (JStr ''url'') = Inr v" "fst (get_artifact env v w) = Response status body"
    "\<not> raise_for_status env status"
    by blast
  with g assms
  show "\<exists>g v status body.
         select_file package_info = Inr g \<and> py_getitem g (JStr ''url'') = Inr v \<and>
         fst (get_artifact env v w) = Response status body \<and>
         \<not> (400 \<le> status \<and> status < 600)"
    by (auto simp: http_error_status_def)
qed

theorem failed_download_keeps_files_witness:
  "raise_for_status sample_env = http_error_status \<and>
   select_file (JObj []) = Inl KeyError \<and>
   download_package sample_env sample_crawler ''none'' (JObj []) empty_world =
     (False, empty_world) \<and>
   fst (get_artifact sample_env (JStr ''https://files.example/old'') empty_world) =
     Response 503 [] \<and>
   \<not> fst (download_package sample_env sample_crawler ''old'' old_doc empty_world) \<and>
   files (snd (download_package sample_env sample_crawler ''old'' old_doc empty_world)) =
     files empty_world \<and>
   files (snd (download_package sample_env sample_crawler ''demo'' demo_doc empty_world)) \<noteq>
     files empty_world \<and>
   (\<exists>g v status body.
      select_file demo_doc = Inr g \<and> py_getitem g (JStr ''url'') = Inr v \<and>
      fst (get_artifact sample_env v empty_world) = Response status body \<and>
      \<not> (400 \<le> status \<and> status < 600))"
proof -
  let ?old = "JObj [(''filename'', JStr ''old-1.0.tar.gz''),
                    (''url'', JStr ''https://files.example/old''),
                    (''upload_time_iso_8601'', JStr ''2024-01-01T00:00:00Z'')]"
  have library: "raise_for_status sample_env = http_error_status"
    by (simp add: sample_env_def http_error_status_def)
  have no_info: "select_file (JObj []) = Inl KeyError"
    by code_simp
  have selected: "select_file old_doc = Inr ?old"
    by code_simp
  have truthy: "py_truthy ?old"
    by simp
  have url: "py_getitem ?old (JStr ''url'') = Inr (JStr ''https://files.example/old'')"
    by simp
  have name: "py_getitem ?old (JStr ''filename'') = Inr (JStr ''old-1.0.tar.gz'')"
    by simp
  have path: "os_path_join (download_dir sample_crawler) (JStr ''old-1.0.tar.gz'') =
                Inr ''pypi_packages/old-1.0.tar.gz''"
    by code_simp
  have absent: "\<not> os_path_exists empty_world ''pypi_packages/old-1.0.tar.gz''"
    by (simp add: os_path_exists_def empty_world_def)
  have unavailable:
    "fst (get_artifact sample_env (JStr ''https://files.example/old'') empty_world) =
       Response 503 []"
    by code_simp
  have server_error: "(400::nat) \<le> 503 \<and> (503::nat) < 600"
    by simp
  have stored:
    "files (snd (download_package sample_env sample_crawler ''demo'' demo_doc empty_world))
       ''pypi_packages/demo-2.0.tar.gz'' = Some ''demo archive''"
    by code_simp
  have "files empty_world ''pypi_packages/demo-2.0.tar.gz'' = None"
    by (simp add: empty_world_def)
  with stored have changed:
    "files (snd (download_package sample_env sample_crawler ''demo'' demo_doc empty_world)) \<noteq>
       files empty_world"
    by (metis option.distinct(1))
  from failed_download_keeps_files
         [OF library, of "JObj []" KeyError sample_crawler "''none''" empty_world]
       no_info
  have first: "download_package sample_env sample_crawler ''none'' (JObj []) empty_world =
                 (False, empty_world)"
    by blast
  from failed_download_keeps_files
         [OF library, of old_doc _ sample_crawler "''old''" empty_world ?old
             "JStr ''https://files.example/old''" "JStr ''old-1.0.tar.gz''"
             "''pypi_packages/old-1.0.tar.gz''"]
       selected truthy url name path absent unavailable server_error
  have second:
    "\<not> fst (download_package sample_env sample_crawler ''old'' old_doc empty_world) \<and>
     files (snd (download_package sample_env sample_crawler ''old'' old_doc empty_world)) =
       files empty_world"
    by blast
  from failed_download_keeps_files
         [OF library, of demo_doc _ sample_crawler "''demo''" empty_world]
       changed
  have third: "\<exists>g v status body.
      select_file demo_doc = Inr g \<and> py_getitem g (JStr ''url'') = Inr v \<and>
      fst (get_artifact sample_env v empty_world) = Response status body \<and>
      \<not> (400 \<le> status \<and> status < 600)"
    by blast
  from library no_info first unavailable second changed third show ?thesis
    by (intro conjI) simp_all
qed

text \<open>
  C9 as stated fails: a response with status 304 is not a 2xx response, yet
  \<^verbatim>\<open>raise_for_status\<close> lets it pass, and \<^verbatim>\<open>download_package\<close> writes its (empty) body to
  a new file and returns \<open>True\<close>.
\<close>

theorem not_modified_is_stored:
  "raise_for_status not_modified_env 304 = http_error_status 304 \<and>
   os_path_exists empty_world ''pypi_packages/demo-2.0.tar.gz'' = False \<and>
   fst (get_artifact not_modified_env (JStr ''https://files.example/demo'') empty_world) =
     Response 304 [] \<and>
   fst (download_package not_modified_env sample_crawler ''demo'' demo_doc empty_world) = True \<and>
   files (snd (download_package not_modified_env sample_crawler ''demo'' demo_doc empty_world))
     ''pypi_packages/demo-2.0.tar.gz'' = Some []"
  by code_simp

section \<open>The recent-updates feed\<close>

lemma tokens_started:
  "cur \<noteq> [] \<Longrightarrow>
     \<exists>others. tokens cur s = (cur @ takeWhile (\<lambda>c. \<not> is_space c) s) # others"
proof (induction s arbitrary: cur)
  case Nil
  then show ?case by simp
next
  case (Cons a s)
  show ?case
  proof (cases "is_space a")
    case True
    with Cons.prems show ?thesis by simp
  next
    case False
    from Cons.IH [of "cur @ [a]"] obtain others where
      "tokens (cur @ [a]) s = ((cur @ [a]) @ takeWhile (\<lambda>c. \<not> is_space c) s) # others"
      by auto
    with False show ?thesis by simp
  qed
qed

lemma tokens_skip: "tokens [] s = tokens [] (dropWhile is_space s)"
  by (induction s) auto

lemma py_split_first:
  "py_split s = [] \<and> first_token s = [] \<or>
   (\<exists>others. py_split s = first_token s # others \<and> first_token s \<noteq> [])"
proof (cases "dropWhile is_space s")
  case Nil
  have "tokens [] (dropWhile is_space s) = []"
    unfolding Nil by simp
  moreover have "first_token s = []"
    unfolding first_token_def Nil by simp
  ultimately show ?thesis
    by (simp add: py_split_def tokens_skip [of s])
next
  case (Cons c cs)
  then have "\<not> is_space c"
    by (metis hd_dropWhile list.sel(1) list.distinct(1))
  then have step: "tokens [] (c # cs) = tokens [c] cs"
    by simp
  from tokens_started [of "[c]" cs]
  obtain others where "tokens [c] cs = ([c] @ takeWhile (\<lambda>c. \<not> is_space c) cs) # others"
    by blast
  then have "tokens [] (dropWhile is_space s) =
               (c # takeWhile (\<lambda>c. \<not> is_space c) cs) # others"
    unfolding Cons step by simp
  moreover have "first_token s = c # takeWhile (\<lambda>c. \<not> is_space c) cs"
    unfolding first_token_def Cons using \<open>\<not> is_space c\<close> by simp
  ultimately show ?thesis
    by (simp add: py_split_def tokens_skip [of s])
qed

lemma first_occurrences_snoc:
  "first_occurrences (xs @ [x]) =
     (if x \<in> set xs then first_occurrences xs else first_occurrences xs @ [x])"
  by (simp add: first_occurrences_def)

lemma set_first_occurrences [simp]: "set (first_occurrences xs) = set xs"
  by (simp add: first_occurrences_def)

text \<open>The names the loop has to extract, one per titled item; \<open>None\<close> where it raises.\<close>

lemma collect_names_all:
  assumes "those (map title_name
             (List.map_filter (\<lambda>item. map_option elem_text (find_title item)) items)) = Some names"
  shows "collect_names items (first_occurrences seen) = Inr (first_occurrences (seen @ names))"
  using assms
proof (induction items arbitrary: seen names)
  case Nil
  then show ?case by (simp add: map_filter_simps)
next
  case (Cons item items)
  show ?case
  proof (cases "find_title item")
    case None
    with Cons show ?thesis
      by (simp add: map_filter_simps)
  next
    case (Some title)
    with Cons.prems obtain n ns where
      n: "title_name (elem_text title) = Some n" and
      ns: "those (map title_name
             (List.map_filter (\<lambda>item. map_option elem_text (find_title item)) items)) = Some ns"
      and names: "names = n # ns"
      by (auto simp: map_filter_simps split: option.splits)
    from n obtain t where t: "elem_text title = Some t" and ft: "first_token t = n" "n \<noteq> []"
      by (auto simp: title_name_def split: option.splits if_splits)
    with py_split_first [of t] obtain others where split: "py_split t = n # others"
      by auto
    have "collect_names (item # items) (first_occurrences seen) =
            collect_names items (first_occurrences (seen @ [n]))"
      by (simp add: Some t split first_occurrences_snoc)
    also have "\<dots> = Inr (first_occurrences ((seen @ [n]) @ ns))"
      by (rule Cons.IH [OF ns])
    finally show ?thesis
      by (simp add: names)
  qed
qed

lemma collect_names_raises:
  assumes "None \<in> set (map title_name
             (List.map_filter (\<lambda>item. map_option elem_text (find_title item)) items))"
  shows "\<exists>e. collect_names items seen = Inl e"
  using assms
proof (induction items arbitrary: seen)
  case Nil
  then show ?case by (simp add: map_filter_simps)
next
  case (Cons item items)
  show ?case
  proof (cases "find_title item")
    case None
    with Cons show ?thesis
      by (simp add: map_filter_simps)
  next
    case (Some title)
    show ?thesis
    proof (cases "title_name (elem_text title)")
      case None
      then have "elem_text title = None \<or> (\<exists>t. elem_text title = Some t \<and> py_split t = [])"
        using py_split_first
        by (fastforce simp: title_name_def split: option.splits if_splits)
      then show ?thesis
        by (auto simp: Some)
    next
      case name: (Some n)
      then obtain t where t: "elem_text title = Some t" and ft: "first_token t = n" "n \<noteq> []"
        by (auto simp: title_name_def split: option.splits if_splits)
      with py_split_first [of t] obtain others where split: "py_split t = n # others"
        by auto
      from Cons.prems Some name
      have "None \<in> set (map title_name
             (List.map_filter (\<lambda>item. map_option elem_text (find_title item)) items))"
        by (simp add: map_filter_simps)
      from Cons.IH [OF this] show ?thesis
        by (simp add: Some t split)
    qed
  qed
qed

lemma rss_result:
  "fst (get_recent_packages_from_rss env w) =
     (case http_get env (trace w) rss_url 10 of
        RequestFailed \<Rightarrow> []
      | Response status body \<Rightarrow>
          if raise_for_status env status then []
          else (case xml_fromstring env body of
                  None \<Rightarrow> []
                | Some tree \<Rightarrow>
                    (case collect_names (findall_items tree) [] of
                       Inl e \<Rightarrow> []
                     | Inr packages \<Rightarrow> take 100 packages)))"
  by (simp add: get_recent_packages_from_rss_def session_get_def
           split: http_outcome.splits option.splits sum.splits)

text \<open>
  C7. When the request for the feed fails, when its status is rejected and when the
  body does not parse, the candidate list is empty. When the feed parses and every
  titled item has a first token, the candidate list is these first tokens in item order,
  each kept at its first occurrence only, cut to the first 100. In every case the list
  has at most 100 names.
\<close>

theorem feed_candidates:
  "(http_get env (trace w) rss_url 10 = RequestFailed \<longrightarrow>
      fst (get_recent_packages_from_rss env w) = []) \<and>
   (http_get env (trace w) rss_url 10 = Response status body \<and> raise_for_status env status \<longrightarrow>
      fst (get_recent_packages_from_rss env w) = []) \<and>
   (http_get env (trace w) rss_url 10 = Response status body \<and> xml_fromstring env body = None \<longrightarrow>
      fst (get_recent_packages_from_rss env w) = []) \<and>
   (http_get env (trace w) rss_url 10 = Response status body \<and> \<not> raise_for_status env status \<and>
    xml_fromstring env body = Some tree \<and>
    those (map title_name (item_titles tree)) = Some names \<longrightarrow>
      fst (get_recent_packages_from_rss env w) = take 100 (first_occurrences names)) \<and>
   length (fst (get_recent_packages_from_rss env w)) \<le> 100"
proof (intro conjI impI)
  assume "http_get env (trace w) rss_url 10 = RequestFailed"
  then show "fst (get_recent_packages_from_rss env w) = []"
    by (simp add: rss_result)
next
  assume "http_get env (trace w) rss_url 10 = Response status body \<and> raise_for_status env status"
  then show "fst (get_recent_packages_from_rss env w) = []"
    by (simp add: rss_result)
next
  assume "http_get env (trace w) rss_url 10 = Response status body \<and> xml_fromstring env body = None"
  then show "fst (get_recent_packages_from_rss env w) = []"
    by (simp add: rss_result)
next
  assume a: "http_get env (trace w) rss_url 10 = Response status body \<and>
    \<not> raise_for_status env status \<and> xml_fromstring env body = Some tree \<and>
    those (map title_name (item_titles tree)) = Some names"
  then have "those (map title_name
             (List.map_filter (\<lambda>item. map_option elem_text (find_title item))
                (findall_items tree))) = Some names"
    by (simp add: item_titles_def)
  from collect_names_all [OF this, of "[]"]
  have "collect_names (findall_items tree) [] = Inr (first_occurrences names)"
    by (simp add: first_occurrences_def)
  with a show "fst (get_recent_packages_from_rss env w) = take 100 (first_occurrences names)"
    by (simp add: rss_result)
next
  show "length (fst (get_recent_packages_from_rss env w)) \<le> 100"
    by (simp add: rss_result split: http_outcome.splits option.splits sum.splits)
qed

theorem feed_candidates_witness:
  "http_get (sample_env\<lparr>http_get := \<lambda>history url timeout. RequestFailed\<rparr>)
     (trace empty_world) rss_url 10 = RequestFailed \<and>
   fst (get_recent_packages_from_rss
          (sample_env\<lparr>http_get := \<lambda>history url timeout. RequestFailed\<rparr>) empty_world) = [] \<and>
   http_get (sample_env\<lparr>http_get := \<lambda>history url timeout. Response 500 []\<rparr>)
     (trace empty_world) rss_url 10 = Response 500 [] \<and>
   raise_for_status (sample_env\<lparr>http_get := \<lambda>history url timeout. Response 500 []\<rparr>) 500 \<and>
   fst (get_recent_packages_from_rss
          (sample_env\<lparr>http_get := \<lambda>history url timeout. Response 500 []\<rparr>) empty_world) = [] \<and>
   http_get (sample_env\<lparr>xml_fromstring := \<lambda>body. None\<rparr>)
     (trace empty_world) rss_url 10 = Response 200 ''feed.xml'' \<and>
   xml_fromstring (sample_env\<lparr>xml_fromstring := \<lambda>body. None\<rparr>) ''feed.xml'' = None \<and>
   fst (get_recent_packages_from_rss
          (sample_env\<lparr>xml_fromstring := \<lambda>body. None\<rparr>) empty_world) = [] \<and>
   http_get sample_env (trace empty_world) rss_url 10 = Response 200 ''feed.xml'' \<and>
   \<not> raise_for_status sample_env 200 \<and>
   xml_fromstring sample_env ''feed.xml'' = Some sample_feed \<and>
   those (map title_name (item_titles sample_feed)) = Some [''foo'', ''bar'', ''foo''] \<and>
   fst (get_recent_packages_from_rss sample_env empty_world) = [''foo'', ''bar'']"
proof -
  let ?offline = "sample_env\<lparr>http_get := \<lambda>history url timeout. RequestFailed\<rparr>"
  let ?failing = "sample_env\<lparr>http_get := \<lambda>history url timeout. Response 500 []\<rparr>"
  let ?garbled = "sample_env\<lparr>xml_fromstring := \<lambda>body. None\<rparr>"
  have off: "http_get ?offline (trace empty_world) rss_url 10 = RequestFailed"
    by simp
  have fail: "http_get ?failing (trace empty_world) rss_url 10 = Response 500 []"
             "raise_for_status ?failing 500"
    by (simp_all add: sample_env_def http_error_status_def)
  have garbled: "http_get ?garbled (trace empty_world) rss_url 10 = Response 200 ''feed.xml''"
                "xml_fromstring ?garbled ''feed.xml'' = None"
    by code_simp+
  have served: "http_get sample_env (trace empty_world) rss_url 10 = Response 200 ''feed.xml''"
    by code_simp
  have accepted: "\<not> raise_for_status sample_env 200"
    by (simp add: sample_env_def http_error_status_def)
  have parsed: "xml_fromstring sample_env ''feed.xml'' = Some sample_feed"
    by (simp add: sample_env_def http_error_status_def)
  have titles: "those (map title_name (item_titles sample_feed)) = Some [''foo'', ''bar'', ''foo'']"
    by code_simp
  have dedup: "take 100 (first_occurrences [''foo'', ''bar'', ''foo'']) = [''foo'', ''bar'']"
    by code_simp
  from feed_candidates [of ?offline empty_world] off
  have r1: "fst (get_recent_packages_from_rss ?offline empty_world) = []"
    by blast
  from feed_candidates [of ?failing empty_world 500 "[]"] fail
  have r2: "fst (get_recent_packages_from_rss ?failing empty_world) = []"
    by blast
  from feed_candidates [of ?garbled empty_world 200 "''feed.xml''"] garbled
  have r3: "fst (get_recent_packages_from_rss ?garbled empty_world) = []"
    by blast
  from feed_candidates [of sample_env empty_world 200 "''feed.xml''" sample_feed
                           "[''foo'', ''bar'', ''foo'']"]
       served accepted parsed titles dedup
  have r4: "fst (get_recent_packages_from_rss sample_env empty_world) = [''foo'', ''bar'']"
    by simp
  from off fail garbled served accepted parsed titles r1 r2 r3 r4 show ?thesis
    by (intro conjI)
qed

text \<open>
  C10. When the feed parses and some titled item has no first token (its title has no
  text, or the text has no token), the candidate list is empty, whatever names the
  earlier items gave.
\<close>

theorem blank_title_empties_feed:
  assumes "http_get env (trace w) rss_url 10 = Response status body"
    and "\<not> raise_for_status env status"
    and "xml_fromstring env body = Some tree"
    and "None \<in> set (map title_name (item_titles tree))"
  shows "fst (get_recent_packages_from_rss env w) = []"
proof -
  from assms(4) have "None \<in> set (map title_name
             (List.map_filter (\<lambda>item. map_option elem_text (find_title item))
                (findall_items tree)))"
    by (simp add: item_titles_def)
  from collect_names_raises [OF this, of "[]"] obtain e where
    "collect_names (findall_items tree) [] = Inl e"
    by blast
  with assms(1-3) show ?thesis
    by (simp add: rss_result)
qed

theorem blank_title_empties_feed_witness:
  "http_get blank_feed_env (trace empty_world) rss_url 10 = Response 200 ''feed.xml'' \<and>
   \<not> raise_for_status blank_feed_env 200 \<and>
   xml_fromstring blank_feed_env ''feed.xml'' = Some blank_title_feed \<and>
   map title_name (item_titles blank_title_feed) = [Some ''foo'', None] \<and>
   fst (get_recent_packages_from_rss blank_feed_env empty_world) = []"
proof -
  have served: "http_get blank_feed_env (trace empty_world) rss_url 10 = Response 200 ''feed.xml''"
    by code_simp
  have accepted: "\<not> raise_for_status blank_feed_env 200"
    by (simp add: blank_feed_env_def sample_env_def http_error_status_def)
  have parsed: "xml_fromstring blank_feed_env ''feed.xml'' = Some blank_title_feed"
    by (simp add: blank_feed_env_def)
  have titles: "map title_name (item_titles blank_title_feed) = [Some ''foo'', None]"
    by code_simp
  then have blank: "None \<in> set (map title_name (item_titles blank_title_feed))"
    by simp
  from blank_title_empties_feed [OF served accepted parsed blank] served accepted parsed titles
  show ?thesis
    by (intro conjI)
qed

section \<open>The run\<close>

lemma metadata_gets_append [simp]:
  "metadata_gets (es @ fs) = metadata_gets es @ metadata_gets fs"
  by (induction es rule: metadata_gets.induct) auto



lemma write_file_trace [simp]: "trace (snd (write_file env p body w)) = trace w"
  by (simp add: write_file_def split: write_outcome.splits)














text \<open>
  C3 fails on the code. For the candidates \<^verbatim>\<open>missing\<close> (the index answers 404, so there is
  no metadata) and \<^verbatim>\<open>old\<close> (uploaded in 2024, so the filter rejects it) the run makes the
  two metadata requests one after the other and pauses nowhere: both \<^verbatim>\<open>continue\<close>
  statements skip \<^verbatim>\<open>time.sleep(1)\<close>.
\<close>

theorem skipped_candidates_not_paced:
  "crawl_and_download sample_env sample_crawler (Some [''missing'', ''old'']) empty_world =
     (Summary 0,
      empty_world\<lparr>trace := [HttpGet (metadata_url ''missing'') 10,
                            HttpGet (metadata_url ''old'') 10]\<rparr>)"
  by (simp add: crawl_and_download_def get_package_info_def session_get_def sample_env_def
        sample_http_def metadata_url_def rss_url_def empty_world_def old_doc_def
        package_doc_def is_updated_since_july_2025_def upload_check_def
        str_replace_char_def sample_fromisoformat_def digit_def datetime_ge_def
        cutoff_date_def wall_clock_def http_error_status_def)

text \<open>
  C4 fails on the code. The metadata of \<^verbatim>\<open>undated\<close> has \<^verbatim>\<open>null\<close> for its upload
  timestamp; \<^verbatim>\<open>None.replace\<close> raises \<^verbatim>\<open>AttributeError\<close>, which leaves
  \<^verbatim>\<open>is_updated_since_july_2025\<close> and then \<^verbatim>\<open>crawl_and_download\<close>: the run ends there,
  without a summary, and the next candidate is never requested.
\<close>

theorem filter_exception_ends_run:
  "fst (crawl_and_download sample_env sample_crawler (Some [''undated'', ''demo'']) empty_world) =
     Raised AttributeError \<and>
   trace (snd (crawl_and_download sample_env sample_crawler
                 (Some [''undated'', ''demo'']) empty_world)) =
     [HttpGet (metadata_url ''undated'') 10]"
  by code_simp

end
